theory Spec2Isabelle
  imports Main "HOL-Library.Word" "HOL-Library.FSet" "HOL-Library.Multiset"
begin

section \<open>Machine types\<close>

text \<open>
  Go's \<open>int64\<close>, \<open>uint64\<close> and \<open>uint32\<close> are words of that width: \<open>+\<close> and \<open>-\<close>
  wrap around, \<open>\<le>\<close> and \<open><\<close> compare the unsigned values. A byte slice is a list of
  8-bit words; \<open>bytes.Compare a b == 0\<close> is equality of the two lists.
\<close>

type_synonym int64 = "64 word"
type_synonym uint64 = "64 word"
type_synonym byte = "8 word"

section \<open>lavaprotocol: requested block replacement\<close>

text \<open>
  The sentinel constants \<open>spectypes.LATEST_BLOCK\<close>, \<open>SAFE_BLOCK\<close>, \<open>FINALIZED_BLOCK\<close>,
  \<open>EARLIEST_BLOCK\<close> and \<open>NOT_APPLICABLE\<close> are declared in package \<open>x/spec/types\<close>, which
  is not part of the sources at hand; they are taken as a parameter. Go rejects a
  \<open>switch\<close> with two equal integer constants among its cases, so the four case
  constants are pairwise distinct in every program that compiles.
\<close>

record spectypes =
  LATEST_BLOCK :: int64
  SAFE_BLOCK :: int64
  FINALIZED_BLOCK :: int64
  EARLIEST_BLOCK :: int64
  NOT_APPLICABLE :: int64

definition ReplaceRequestedBlock :: "spectypes \<Rightarrow> int64 \<Rightarrow> int64 \<Rightarrow> int64" where
  "ReplaceRequestedBlock c requestedBlock latestBlock =
     (if requestedBlock = LATEST_BLOCK c then latestBlock
      else if requestedBlock = SAFE_BLOCK c then latestBlock
      else if requestedBlock = FINALIZED_BLOCK c then latestBlock
      else if requestedBlock = EARLIEST_BLOCK c then NOT_APPLICABLE c
      else requestedBlock)"

definition UpdateRequestedBlock :: "spectypes \<Rightarrow> int64 \<Rightarrow> int64 \<Rightarrow> int64" where
  "UpdateRequestedBlock c requestBlock replyLatestBlock =
     ReplaceRequestedBlock c requestBlock replyLatestBlock"

section \<open>lavaprotocol: VRF outputs to data-reliability indexes\<close>

text \<open>
  \<open>utils.GetIndexForVrf(vrf, providersCount, reliabilityThreshold)\<close> lives in package
  \<open>utils\<close>, which is not part of the sources at hand. \<open>DataReliabilityThresholdToSession\<close>
  takes it as the parameter \<open>getIndexForVrf\<close>, returning Go's pair \<open>(index, err)\<close> with
  \<open>None\<close> for a nil error; every theorem about the function holds for every such helper.
\<close>







section \<open>lavaprotocol: comparing the audit replies\<close>

text \<open>
  \<open>RelayResult\<close> with the fields the comparison reads. The request (a
  \<open>pairingtypes.RelayRequest\<close>, declared outside the sources at hand) is only copied into
  the conflict record, so its type is a parameter. Both callers build results whose
  \<open>Reply\<close> is not nil. \<open>ConflictRelayData\<close> has the fields \<open>Reply\<close> and \<open>Request\<close> in Go;
  they carry the prefix \<open>Conflict\<close> here, since a record field is a constant of its own.
\<close>

record RelayReply =
  Data :: "byte list"
  Sig :: "byte list"

record 'rq RelayResult =
  Request :: 'rq
  Reply :: RelayReply
  ProviderAddress :: string
  Finalized :: bool

record 'rq ConflictRelayData =
  ConflictReply :: RelayReply
  ConflictRequest :: 'rq

record 'rq ResponseConflict =
  ConflictRelayData0 :: "'rq ConflictRelayData"
  ConflictRelayData1 :: "'rq ConflictRelayData"

text \<open>The second component is the pointer \<open>responseConflict\<close>: \<open>None\<close> is nil.\<close>

definition compareRelaysFindConflict ::
  "'rq RelayResult \<Rightarrow> 'rq RelayResult \<Rightarrow> bool \<times> 'rq ResponseConflict option" where
  "compareRelaysFindConflict result1 result2 =
     (if Data (Reply result1) = Data (Reply result2) then (False, None)
      else (True, Some \<lparr>ConflictRelayData0 =
                           \<lparr>ConflictReply = Reply result1, ConflictRequest = Request result1\<rparr>,
                         ConflictRelayData1 =
                           \<lparr>ConflictReply = Reply result2, ConflictRequest = Request result2\<rparr>\<rparr>))"

text \<open>
  The first loop of \<open>VerifyReliabilityResults\<close>, over the audit results. On a conflict
  it assigns \<open>conflicts = []*ResponseConflict{detectionMessage}\<close>: a fresh slice of one
  element.
\<close>

fun VerifyReliabilityResults_original ::
  "'rq RelayResult \<Rightarrow> 'rq RelayResult list \<Rightarrow> bool \<times> 'rq ResponseConflict option list
    \<Rightarrow> bool \<times> 'rq ResponseConflict option list" where
  "VerifyReliabilityResults_original originalResult [] (conflict, conflicts) = (conflict, conflicts)"
| "VerifyReliabilityResults_original originalResult (dataReliabilityResult # rest)
     (conflict, conflicts) =
     (case compareRelaysFindConflict originalResult dataReliabilityResult of
        (conflict_now, detectionMessage) \<Rightarrow>
          if conflict_now
          then VerifyReliabilityResults_original originalResult rest (True, [detectionMessage])
          else VerifyReliabilityResults_original originalResult rest (conflict, conflicts))"

text \<open>
  The nested loops \<open>for idx1 ... for idx2 := idx1 + 1 ...\<close>: the inner one compares
  \<open>dataReliabilityResults[idx1]\<close> with every later result and appends each conflict.
\<close>

fun VerifyReliabilityResults_inner ::
  "'rq RelayResult \<Rightarrow> 'rq RelayResult list \<Rightarrow> 'rq ResponseConflict option list
    \<Rightarrow> 'rq ResponseConflict option list" where
  "VerifyReliabilityResults_inner result1 [] conflicts = conflicts"
| "VerifyReliabilityResults_inner result1 (result2 # rest) conflicts =
     (case compareRelaysFindConflict result1 result2 of
        (conflict_responses, moreDetectionMessages) \<Rightarrow>
          VerifyReliabilityResults_inner result1 rest
            (if conflict_responses then conflicts @ [moreDetectionMessages] else conflicts))"

fun VerifyReliabilityResults_outer ::
  "'rq RelayResult list \<Rightarrow> 'rq ResponseConflict option list \<Rightarrow> 'rq ResponseConflict option list" where
  "VerifyReliabilityResults_outer [] conflicts = conflicts"
| "VerifyReliabilityResults_outer (result1 # rest) conflicts =
     VerifyReliabilityResults_outer rest (VerifyReliabilityResults_inner result1 rest conflicts)"

text \<open>
  \<open>totalNumberOfSessions\<close> and \<open>participatingProviders\<close> only choose and fill the log
  line; the returned pair does not depend on them.
\<close>

definition VerifyReliabilityResults ::
  "'rq RelayResult \<Rightarrow> 'rq RelayResult list \<Rightarrow> int
    \<Rightarrow> bool \<times> 'rq ResponseConflict option list" where
  "VerifyReliabilityResults originalResult dataReliabilityResults totalNumberOfSessions =
     (case VerifyReliabilityResults_original originalResult dataReliabilityResults (False, []) of
        (conflict, conflicts) \<Rightarrow>
          if conflict then (conflict, VerifyReliabilityResults_outer dataReliabilityResults conflicts)
          else (conflict, conflicts))"

text \<open>
  The pairs \<open>(xs[idx1], xs[idx2])\<close> with \<open>idx1 < idx2\<close>, in the order the nested loops
  visit them; used to state what the loops compute.
\<close>

fun laterPairs :: "'a list \<Rightarrow> ('a \<times> 'a) list" where
  "laterPairs [] = []"
| "laterPairs (x # xs) = map (Pair x) xs @ laterPairs xs"

section \<open>lavasession: errors and data\<close>

text \<open>
  The errors of package \<open>lavasession\<close> that the functions below return or test with
  \<open>Is\<close>; \<open>sdkerrors.Wrapf\<close> only adds a message and keeps the error's identity.
  \<open>StaleEpochError\<close> is the unnamed error that \<open>UpdateAllProviders\<close> builds with
  \<open>utils.LavaFormatError("trying to update provider list for older epoch", ...)\<close>.
  \<open>FatalError\<close> stands for \<open>utils.LavaFormatFatal\<close>, which ends the process, and
  \<open>NilPointerDereference\<close> for Go's panic on a nil pointer.
\<close>

datatype error =
    PairingListEmptyError
  | UnreachableCodeError
  | AddressIndexWasNotFoundError
  | EpochMismatchError
  | LockMisUseDetectedError
  | SessionIsAlreadyBlockListedError
  | NegativeComputeUnitsAmountError
  | StaleEpochError
  | DataReliabilityIndexOutOfRangeError
  | DataReliabilityIndexRequestedIsOriginalProviderError
  | DataReliabilityEpochMismatchError
  | NoDataReliabilitySessionWasCreatedError
  | DataReliabilityAlreadySentThisEpochError
  | AllProviderEndpointsDisabledError
  | FailedToConnectToEndPointForDataReliabilityError
  | FatalError
  | NilPointerDereference

text \<open>
  What the session functions observe of the \<open>errorReceived\<close> argument (a Go \<open>error\<close>):
  whether its gRPC status code is the ABCI code of \<open>SessionOutOfSyncError\<close>, and the
  results of the three \<open>Is\<close> tests.
\<close>

record errorReceived =
  statusCodeIsSessionOutOfSync :: bool
  isSessionOutOfSyncError :: bool
  isReportAndBlockProviderError :: bool
  isBlockProviderError :: bool

text \<open>
  Modelled from the spec: the declarations of \<open>QoSInfo\<close>, \<open>SingleConsumerSession\<close> and
  \<open>ConsumerSessionsWithProvider\<close> are missing from the sources. The records hold the
  fields that the functions under \<open>common.go\<close> read and write, with the types section 3
  gives (SessionSlot: \<open>relayNum\<close>, \<open>cuSum\<close>, \<open>latestRelayCu\<close>, \<open>latestBlock\<close>,
  \<open>consecutiveFailures\<close>, \<open>blockListed\<close>, the mutex \<open>inUse\<close>; ProviderEntry: \<open>address\<close>,
  \<open>usedCU\<close>, \<open>maxCU\<close>, \<open>pairingEpoch\<close>). The field \<open>lock\<close> is the session's
  \<open>sync.Mutex\<close>: \<open>True\<close> when it is held. The pointer \<open>consumerSession.Client\<close> to the
  session's provider entry is not a field: the functions that follow it take the entry
  as an argument and return it updated. Endpoints and their connections are not modelled.
\<close>

record QoSInfo =
  TotalRelays :: uint64

record SingleConsumerSession =
  CuSum :: uint64
  LatestRelayCu :: uint64
  QoSInfo :: QoSInfo
  SessionId :: int64
  RelayNum :: uint64
  LatestBlock :: int64
  BlockListed :: bool
  ConsecutiveNumberOfFailures :: uint64
  lock :: bool

record ConsumerSessionsWithProvider =
  PublicLavaAddress :: string
  UsedComputeUnits :: uint64
  MaxComputeUnits :: uint64
  PairingEpoch :: uint64

text \<open>
  \<open>ConsumerSessionManager\<close>. The Go maps are maps here (where a function ranges over
  one, the order of the visit is an argument of the function), the sets
  \<open>map[string]struct{}\<close> are finite sets, and a pointer to a provider entry is the
  entry. The table lock \<open>csm.lock\<close> orders concurrent calls; each function below is one
  such call, run alone. \<open>rpcEndpoint\<close> and \<open>providerOptimizer\<close> are used for logging and
  probing only.
\<close>

record ConsumerSessionManager =
  pairing :: "string \<rightharpoonup> ConsumerSessionsWithProvider"
  currentEpoch :: uint64
  numberOfResets :: uint64
  pairingAddresses :: "uint64 \<rightharpoonup> string"
  pairingAddressesLength :: uint64
  validAddresses :: "string list"
  addedToPurgeAndReport :: "string fset"
  pairingPurge :: "string \<rightharpoonup> ConsumerSessionsWithProvider"

definition MaximumNumberOfFailuresAllowedPerConsumerSession :: uint64 where
  "MaximumNumberOfFailuresAllowedPerConsumerSession = 3"

definition MaxConsecutiveConnectionAttempts :: nat where
  "MaxConsecutiveConnectionAttempts = 10"

section \<open>lavasession: epoch rotation\<close>

text \<open>
  \<open>setValidAddressesToDefaultValue\<close> ranges over the map \<open>csm.pairingAddresses\<close>, in an
  order Go does not fix. \<open>visitOrder\<close> is the order in which this run visits the keys (a
  list without repetition of exactly the keys of the map); the slice is filled with the
  addresses in that order.
\<close>

definition setValidAddressesToDefaultValue ::
  "ConsumerSessionManager \<Rightarrow> uint64 list \<Rightarrow> ConsumerSessionManager" where
  "setValidAddressesToDefaultValue csm visitOrder =
     csm\<lparr>validAddresses := List.map_filter (pairingAddresses csm) visitOrder\<rparr>"

text \<open>
  The loop \<open>for idx, provider := range pairingList\<close> of \<open>UpdateAllProviders\<close>. The map
  \<open>pairingList\<close> is given as the list of its entries in the order this run visits them
  (no key twice).
\<close>

fun UpdateAllProviders_loop ::
  "(uint64 \<times> ConsumerSessionsWithProvider) list \<Rightarrow> ConsumerSessionManager
    \<Rightarrow> ConsumerSessionManager" where
  "UpdateAllProviders_loop [] csm = csm"
| "UpdateAllProviders_loop ((idx, provider) # rest) csm =
     UpdateAllProviders_loop rest
       (csm\<lparr>pairingAddresses := (pairingAddresses csm)(idx \<mapsto> PublicLavaAddress provider),
            pairing := (pairing csm)(PublicLavaAddress provider \<mapsto> provider)\<rparr>)"

text \<open>
  \<open>UpdateAllProviders\<close>. \<open>closePurgedUnusedPairingsConnections\<close> closes the network
  connections of the entries that leave \<open>pairingPurge\<close>, and the deferred function sleeps
  and starts the probe of the new providers: neither touches a field of the manager.
\<close>

definition UpdateAllProviders ::
  "ConsumerSessionManager \<Rightarrow> uint64 \<Rightarrow> (uint64 \<times> ConsumerSessionsWithProvider) list
    \<Rightarrow> uint64 list \<Rightarrow> error option \<times> ConsumerSessionManager" where
  "UpdateAllProviders csm epoch pairingList visitOrder =
     (let pairingListLength = length pairingList in
      if epoch \<le> currentEpoch csm then (Some StaleEpochError, csm)
      else
        let csm1 = csm\<lparr>currentEpoch := epoch\<rparr>;
            csm2 = csm1\<lparr>pairingAddresses := Map.empty,
                        addedToPurgeAndReport := {||},
                        pairingAddressesLength := of_nat pairingListLength,
                        numberOfResets := 0\<rparr>;
            csm3 = csm2\<lparr>pairingPurge := pairing csm2\<rparr>;
            csm4 = csm3\<lparr>pairing := Map.empty\<rparr>;
            csm5 = UpdateAllProviders_loop pairingList csm4
        in (None, setValidAddressesToDefaultValue csm5 visitOrder))"

section \<open>lavasession: choosing and blocking providers\<close>

text \<open>
  The loop of \<open>getValidProviderAddress\<close> over \<open>csm.validAddresses\<close>;
  \<open>validAddressesCounter\<close> counts the addresses met so far that are not ignored.
\<close>

fun getValidProviderAddress_loop ::
  "string list \<Rightarrow> string fset \<Rightarrow> int \<Rightarrow> int \<Rightarrow> error + string" where
  "getValidProviderAddress_loop [] ignoredProvidersList validAddressIndex validAddressesCounter =
     Inl UnreachableCodeError"
| "getValidProviderAddress_loop (address # rest) ignoredProvidersList validAddressIndex
     validAddressesCounter =
     (if address |\<notin>| ignoredProvidersList
      then (if validAddressesCounter = validAddressIndex then Inr address
            else getValidProviderAddress_loop rest ignoredProvidersList validAddressIndex
                   (validAddressesCounter + 1))
      else getValidProviderAddress_loop rest ignoredProvidersList validAddressIndex
             validAddressesCounter)"

text \<open>
  \<open>rand_Intn\<close> is \<open>rand.Intn\<close>: for \<open>n > 0\<close> it returns some number of \<open>[0, n)\<close>.
\<close>

definition getValidProviderAddress ::
  "(int \<Rightarrow> int) \<Rightarrow> ConsumerSessionManager \<Rightarrow> string fset \<Rightarrow> error + string" where
  "getValidProviderAddress rand_Intn csm ignoredProvidersList =
     (let ignoredProvidersListLength = int (fcard ignoredProvidersList);
          validAddressesLength = int (length (validAddresses csm));
          totalValidLength = validAddressesLength - ignoredProvidersListLength
      in if totalValidLength \<le> 0 then Inl PairingListEmptyError
         else getValidProviderAddress_loop (validAddresses csm) ignoredProvidersList
                (rand_Intn totalValidLength) 0)"

text \<open>
  \<open>removeAddressFromValidAddresses\<close>: the loop finds the first index that holds the
  address, and \<open>append(validAddresses[:idx], validAddresses[idx+1:]...)\<close> cuts it out.
\<close>

fun removeAddressFromValidAddresses_loop :: "string list \<Rightarrow> string \<Rightarrow> nat \<Rightarrow> nat option" where
  "removeAddressFromValidAddresses_loop [] address idx = None"
| "removeAddressFromValidAddresses_loop (addr # rest) address idx =
     (if addr = address then Some idx
      else removeAddressFromValidAddresses_loop rest address (Suc idx))"

definition removeAddressFromValidAddresses ::
  "ConsumerSessionManager \<Rightarrow> string \<Rightarrow> error option \<times> ConsumerSessionManager" where
  "removeAddressFromValidAddresses csm address =
     (case removeAddressFromValidAddresses_loop (validAddresses csm) address 0 of
        Some idx \<Rightarrow>
          (None, csm\<lparr>validAddresses :=
                       take idx (validAddresses csm) @ drop (idx + 1) (validAddresses csm)\<rparr>)
      | None \<Rightarrow> (Some AddressIndexWasNotFoundError, csm))"

text \<open>
  \<open>blockProvider\<close>. The epoch is compared twice in the source, before and after taking
  the table lock.
\<close>

definition blockProvider ::
  "ConsumerSessionManager \<Rightarrow> string \<Rightarrow> bool \<Rightarrow> uint64
    \<Rightarrow> error option \<times> ConsumerSessionManager" where
  "blockProvider csm address reportProvider sessionEpoch =
     (if sessionEpoch \<noteq> currentEpoch csm then (Some EpochMismatchError, csm)
      else if sessionEpoch \<noteq> currentEpoch csm then (Some EpochMismatchError, csm)
      else
        case removeAddressFromValidAddresses csm address of
          (err, csm1) \<Rightarrow>
            if err \<noteq> None \<and> err \<noteq> Some AddressIndexWasNotFoundError then (err, csm1)
            else if reportProvider
            then (if address |\<notin>| addedToPurgeAndReport csm1
                  then (None, csm1\<lparr>addedToPurgeAndReport :=
                                     finsert address (addedToPurgeAndReport csm1)\<rparr>)
                  else (None, csm1))
            else (None, csm1))"

section \<open>lavasession: releasing a session after a failure\<close>

text \<open>
  \<open>verifyLock\<close>: \<open>TryLock\<close> succeeds exactly when the mutex is free; the function then
  unlocks it again and reports the misuse.
\<close>

definition verifyLock :: "SingleConsumerSession \<Rightarrow> error option" where
  "verifyLock consumerSession =
     (if \<not> lock consumerSession then Some LockMisUseDetectedError else None)"

text \<open>
  Modelled from the spec: the methods \<open>decreaseUsedComputeUnits\<close>,
  \<open>atomicReadUsedComputeUnits\<close> and \<open>getPublicLavaAddressAndPairingEpoch\<close> of
  \<open>ConsumerSessionsWithProvider\<close> are missing from the sources. Section 4.2 says that a
  release subtracts \<open>latestRelayCu\<close> from \<open>entry.usedCU\<close>, an unsigned 64-bit counter
  (section 3); \<open>OnSessionFailure\<close> tests the error the method returns, which the model
  returns when the counter would go below zero. The other two read fields.
\<close>

definition decreaseUsedComputeUnits ::
  "ConsumerSessionsWithProvider \<Rightarrow> uint64 \<Rightarrow> error + ConsumerSessionsWithProvider" where
  "decreaseUsedComputeUnits cswp cu =
     (if UsedComputeUnits cswp < cu then Inl NegativeComputeUnitsAmountError
      else Inr (cswp\<lparr>UsedComputeUnits := UsedComputeUnits cswp - cu\<rparr>))"

definition atomicReadUsedComputeUnits :: "ConsumerSessionsWithProvider \<Rightarrow> uint64" where
  "atomicReadUsedComputeUnits cswp = UsedComputeUnits cswp"

definition getPublicLavaAddressAndPairingEpoch ::
  "ConsumerSessionsWithProvider \<Rightarrow> string \<times> uint64" where
  "getPublicLavaAddressAndPairingEpoch cswp = (PublicLavaAddress cswp, PairingEpoch cswp)"

text \<open>
  \<open>OnSessionFailure\<close>. The result is the returned error, the manager, the session's
  provider entry (\<open>consumerSession.Client\<close>) and the session, each as the call leaves it.
\<close>

definition OnSessionFailure ::
  "ConsumerSessionManager \<Rightarrow> ConsumerSessionsWithProvider \<Rightarrow> SingleConsumerSession
    \<Rightarrow> errorReceived
    \<Rightarrow> error option \<times> ConsumerSessionManager \<times> ConsumerSessionsWithProvider
        \<times> SingleConsumerSession" where
  "OnSessionFailure csm client consumerSession errorReceived =
     (case verifyLock consumerSession of
        Some err \<Rightarrow> (Some err, csm, client, consumerSession)
      | None \<Rightarrow>
          if BlockListed consumerSession
          then (Some SessionIsAlreadyBlockListedError, csm, client, consumerSession)
          else
            let cs1 = consumerSession
                  \<lparr>QoSInfo := (QoSInfo consumerSession)
                     \<lparr>TotalRelays := TotalRelays (QoSInfo consumerSession) + 1\<rparr>\<rparr>;
                cs2 = cs1\<lparr>ConsecutiveNumberOfFailures := ConsecutiveNumberOfFailures cs1 + 1\<rparr>;
                consumerSessionBlockListed =
                  (ConsecutiveNumberOfFailures cs2 > MaximumNumberOfFailuresAllowedPerConsumerSession
                   \<or> statusCodeIsSessionOutOfSync errorReceived);
                cs3 = (if consumerSessionBlockListed then cs2\<lparr>BlockListed := True\<rparr> else cs2);
                cuToDecrease = LatestRelayCu cs3;
                cs4 = cs3\<lparr>LatestRelayCu := 0\<rparr>;
                cs5 = cs4\<lparr>lock := False\<rparr>
            in case decreaseUsedComputeUnits client cuToDecrease of
                 Inl err \<Rightarrow> (Some err, csm, client, cs5)
               | Inr client1 \<Rightarrow>
                   let (blockProvider0, reportProvider0) =
                         (if isReportAndBlockProviderError errorReceived then (True, True)
                          else if isBlockProviderError errorReceived then (True, False)
                          else (False, False));
                       (blockProvider1, reportProvider1) =
                         (if consumerSessionBlockListed
                          then (if atomicReadUsedComputeUnits client1 = 0 then (True, True)
                                else (blockProvider0, reportProvider0))
                          else (blockProvider0, reportProvider0))
                   in if blockProvider1
                      then (case getPublicLavaAddressAndPairingEpoch client1 of
                              (publicProviderAddress, pairingEpoch) \<Rightarrow>
                                (case blockProvider csm publicProviderAddress reportProvider1
                                        pairingEpoch of
                                   (Some err, csm1) \<Rightarrow>
                                     if err = EpochMismatchError then (None, csm1, client1, cs5)
                                     else (Some err, csm1, client1, cs5)
                                 | (None, csm1) \<Rightarrow> (None, csm1, client1, cs5)))
                      else (None, csm, client1, cs5))"

section \<open>lavasession: data-reliability sessions\<close>

text \<open>
  Modelled from the spec: the method \<open>CalculateQoS\<close> of \<open>SingleConsumerSession\<close> is
  missing from the sources. Section 4.2 says that a successful release recomputes the
  QoS scores of the slot (section 4.4); the parameter \<open>calculateQoS\<close> is that
  recomputation, from the session's \<open>QoSInfo\<close> and the arguments of the call to the new
  \<open>QoSInfo\<close>.
\<close>

type_synonym calculateQoS =
  "QoSInfo \<Rightarrow> uint64 \<Rightarrow> int64 \<Rightarrow> int64 \<Rightarrow> int64 \<Rightarrow> int \<Rightarrow> int64 \<Rightarrow> QoSInfo"

definition OnDataReliabilitySessionDone ::
  "calculateQoS \<Rightarrow> SingleConsumerSession \<Rightarrow> int64 \<Rightarrow> uint64 \<Rightarrow> int64 \<Rightarrow> int64 \<Rightarrow> int64 \<Rightarrow> int
    \<Rightarrow> uint64 \<Rightarrow> error option \<times> SingleConsumerSession" where
  "OnDataReliabilitySessionDone calculateQoS consumerSession latestServicedBlock specComputeUnits
     currentLatency expectedLatency expectedBH numOfProviders providersCount =
     (case verifyLock consumerSession of
        Some err \<Rightarrow> (Some err, consumerSession)
      | None \<Rightarrow>
          let cs1 = consumerSession\<lparr>ConsecutiveNumberOfFailures := 0\<rparr>;
              cs2 = cs1\<lparr>LatestBlock := latestServicedBlock\<rparr>;
              cs3 = cs2\<lparr>QoSInfo := calculateQoS (QoSInfo cs2) specComputeUnits currentLatency
                                    expectedLatency (expectedBH - latestServicedBlock)
                                    numOfProviders providersCount\<rparr>
          in (None, cs3\<lparr>lock := False\<rparr>))"

text \<open>
  \<open>OnDataReliabilitySessionFailure\<close>. The provider entry \<open>consumerSession.Client\<close> is
  only read here. The result is the returned error, the manager and the session.
\<close>

definition OnDataReliabilitySessionFailure ::
  "ConsumerSessionManager \<Rightarrow> ConsumerSessionsWithProvider \<Rightarrow> SingleConsumerSession
    \<Rightarrow> errorReceived \<Rightarrow> error option \<times> ConsumerSessionManager \<times> SingleConsumerSession" where
  "OnDataReliabilitySessionFailure csm client consumerSession errorReceived =
     (case verifyLock consumerSession of
        Some err \<Rightarrow> (Some err, csm, consumerSession)
      | None \<Rightarrow>
          if BlockListed consumerSession
          then (Some SessionIsAlreadyBlockListedError, csm, consumerSession)
          else
            let cs1 = consumerSession
                  \<lparr>QoSInfo := (QoSInfo consumerSession)
                     \<lparr>TotalRelays := TotalRelays (QoSInfo consumerSession) + 1\<rparr>\<rparr>;
                cs2 = cs1\<lparr>ConsecutiveNumberOfFailures := ConsecutiveNumberOfFailures cs1 + 1\<rparr>;
                cs3 = cs2\<lparr>RelayNum := RelayNum cs2 - 1\<rparr>;
                cs4 = (if ConsecutiveNumberOfFailures cs3
                          > MaximumNumberOfFailuresAllowedPerConsumerSession
                       then cs3\<lparr>BlockListed := True\<rparr>
                       else if isSessionOutOfSyncError errorReceived
                       then cs3\<lparr>BlockListed := True\<rparr>
                       else cs3);
                (blockProvider0, reportProvider0) =
                  (if isReportAndBlockProviderError errorReceived then (True, True)
                   else if isBlockProviderError errorReceived then (True, False)
                   else (False, False));
                cs5 = cs4\<lparr>lock := False\<rparr>
            in if blockProvider0
               then (case getPublicLavaAddressAndPairingEpoch client of
                       (publicProviderAddress, pairingEpoch) \<Rightarrow>
                         (case blockProvider csm publicProviderAddress reportProvider0
                                 pairingEpoch of
                            (Some err, csm1) \<Rightarrow>
                              if err = EpochMismatchError then (None, csm1, cs5)
                              else (Some err, csm1, cs5)
                          | (None, csm1) \<Rightarrow> (None, csm1, cs5)))
               else (None, csm, cs5))"

text \<open>
  \<open>getDataReliabilityProviderIndex\<close>. Looking a missing key up in a Go map gives the
  zero value: the empty string for \<open>pairingAddresses\<close>, the nil pointer (\<open>None\<close>) for
  \<open>pairing\<close>.
\<close>

definition getDataReliabilityProviderIndex ::
  "ConsumerSessionManager \<Rightarrow> string \<Rightarrow> uint64
    \<Rightarrow> ConsumerSessionsWithProvider option \<times> string \<times> uint64 \<times> error option" where
  "getDataReliabilityProviderIndex csm unAllowedAddress index =
     (let currentEpoch0 = currentEpoch csm;
          pairingAddressesLength0 = pairingAddressesLength csm
      in if index \<ge> pairingAddressesLength0
         then (None, [], currentEpoch0, Some DataReliabilityIndexOutOfRangeError)
         else
           let providerAddress = (case pairingAddresses csm index of Some a \<Rightarrow> a | None \<Rightarrow> [])
           in if providerAddress = unAllowedAddress
              then (None, [], currentEpoch0,
                    Some DataReliabilityIndexRequestedIsOriginalProviderError)
              else (pairing csm providerAddress, providerAddress, currentEpoch0, None))"

text \<open>
  The methods of \<open>ConsumerSessionsWithProvider\<close> that open connections and hand out the
  data-reliability session are missing from the sources, and their results depend on the
  network. They are parameters: \<open>fetchEndpointConnection idx cswp\<close> is what the attempt
  number \<open>idx\<close> of \<open>fetchEndpointConnectionFromConsumerSessionWithProvider\<close> returns
  (connected, endpoint, provider address, error); the other two return Go's triple of
  session pointer, pairing epoch and error.
\<close>

record 'ep providerMethods =
  fetchEndpointConnection ::
    "nat \<Rightarrow> ConsumerSessionsWithProvider \<Rightarrow> bool \<times> 'ep option \<times> string \<times> error option"
  verifyDataReliabilitySessionWasNotAlreadyCreated ::
    "ConsumerSessionsWithProvider \<Rightarrow> SingleConsumerSession option \<times> uint64 \<times> error option"
  getDataReliabilitySingleConsumerSession ::
    "ConsumerSessionsWithProvider \<Rightarrow> 'ep option
      \<Rightarrow> SingleConsumerSession option \<times> uint64 \<times> error option"

text \<open>
  The loop of \<open>fetchEndpointFromConsumerSessionsWithProviderWithRetry\<close>, with \<open>idx\<close> the
  loop counter and \<open>remaining\<close> the number of attempts left; the triple is the current
  value of \<open>connected\<close>, \<open>endpoint\<close> and \<open>providerAddress\<close>, returned where the loop stops.
\<close>

fun fetchEndpointFromConsumerSessionsWithProviderWithRetry_loop ::
  "'ep providerMethods \<Rightarrow> ConsumerSessionManager \<Rightarrow> ConsumerSessionsWithProvider \<Rightarrow> uint64
    \<Rightarrow> nat \<Rightarrow> nat \<Rightarrow> bool \<times> 'ep option \<times> string
    \<Rightarrow> (error + bool \<times> 'ep option \<times> string) \<times> ConsumerSessionManager" where
  "fetchEndpointFromConsumerSessionsWithProviderWithRetry_loop methods csm cswp sessionEpoch
     idx 0 current = (Inr current, csm)"
| "fetchEndpointFromConsumerSessionsWithProviderWithRetry_loop methods csm cswp sessionEpoch
     idx (Suc remaining) current =
     (case fetchEndpointConnection methods idx cswp of
        (connected, endpoint, providerAddress, err) \<Rightarrow>
          (case err of
             Some e \<Rightarrow>
               if e = AllProviderEndpointsDisabledError
               then (case blockProvider csm providerAddress True sessionEpoch of
                       (Some e1, csm1) \<Rightarrow>
                         if e1 \<noteq> EpochMismatchError then (Inl FatalError, csm1)
                         else (Inr (connected, endpoint, providerAddress), csm1)
                     | (None, csm1) \<Rightarrow> (Inr (connected, endpoint, providerAddress), csm1))
               else (Inl FatalError, csm)
           | None \<Rightarrow>
               if connected then (Inr (connected, endpoint, providerAddress), csm)
               else fetchEndpointFromConsumerSessionsWithProviderWithRetry_loop methods csm cswp
                      sessionEpoch (Suc idx) remaining (connected, endpoint, providerAddress)))"

definition fetchEndpointFromConsumerSessionsWithProviderWithRetry ::
  "'ep providerMethods \<Rightarrow> ConsumerSessionManager \<Rightarrow> ConsumerSessionsWithProvider \<Rightarrow> uint64
    \<Rightarrow> (error + 'ep option) \<times> ConsumerSessionManager" where
  "fetchEndpointFromConsumerSessionsWithProviderWithRetry methods csm cswp sessionEpoch =
     (case fetchEndpointFromConsumerSessionsWithProviderWithRetry_loop methods csm cswp
             sessionEpoch 0 MaxConsecutiveConnectionAttempts (False, None, []) of
        (Inl err, csm1) \<Rightarrow> (Inl err, csm1)
      | (Inr (connected, endpoint, providerAddress), csm1) \<Rightarrow>
          if \<not> connected then (Inl FailedToConnectToEndPointForDataReliabilityError, csm1)
          else (Inr endpoint, csm1))"

text \<open>
  The end of \<open>GetDataReliabilitySession\<close>, reached with the session pointer and the
  pairing epoch of either branch: the epoch is aligned with the pairing epoch and the
  relay number of the session is incremented.
\<close>

definition GetDataReliabilitySession_finish ::
  "SingleConsumerSession option \<Rightarrow> uint64 \<Rightarrow> string \<Rightarrow> uint64
    \<Rightarrow> error \<times> uint64 + SingleConsumerSession \<times> string \<times> uint64" where
  "GetDataReliabilitySession_finish consumerSession pairingEpoch providerAddress currentEpoch0 =
     (case consumerSession of
        None \<Rightarrow> Inl (NilPointerDereference, currentEpoch0)
      | Some cs \<Rightarrow>
          let currentEpoch1 = (if currentEpoch0 \<noteq> pairingEpoch then pairingEpoch
                               else currentEpoch0)
          in Inr (cs\<lparr>RelayNum := RelayNum cs + 1\<rparr>, providerAddress, currentEpoch1))"

text \<open>
  \<open>GetDataReliabilitySession\<close>. An error result carries the epoch the source returns
  with it; a success carries the session, the provider address and the epoch.
\<close>

definition GetDataReliabilitySession ::
  "'ep providerMethods \<Rightarrow> ConsumerSessionManager \<Rightarrow> string \<Rightarrow> int64 \<Rightarrow> uint64
    \<Rightarrow> (error \<times> uint64 + SingleConsumerSession \<times> string \<times> uint64) \<times> ConsumerSessionManager" where
  "GetDataReliabilitySession methods csm originalProviderAddress index sessionEpoch =
     (case getDataReliabilityProviderIndex csm originalProviderAddress index of
        (consumerSessionWithProvider, providerAddress, currentEpoch0, err) \<Rightarrow>
          (case err of
             Some e \<Rightarrow> (Inl (e, 0), csm)
           | None \<Rightarrow>
               if sessionEpoch \<noteq> currentEpoch0
               then (Inl (DataReliabilityEpochMismatchError, currentEpoch0), csm)
               else
                 (case consumerSessionWithProvider of
                    None \<Rightarrow> (Inl (NilPointerDereference, currentEpoch0), csm)
                  | Some cswp \<Rightarrow>
                      (case verifyDataReliabilitySessionWasNotAlreadyCreated methods cswp of
                         (consumerSession, pairingEpoch, err1) \<Rightarrow>
                           if err1 = Some NoDataReliabilitySessionWasCreatedError
                           then
                             (case fetchEndpointFromConsumerSessionsWithProviderWithRetry methods
                                     csm cswp currentEpoch0 of
                                (Inl e, csm1) \<Rightarrow> (Inl (e, currentEpoch0), csm1)
                              | (Inr endpoint, csm1) \<Rightarrow>
                                  (case getDataReliabilitySingleConsumerSession methods cswp
                                          endpoint of
                                     (consumerSession2, pairingEpoch2, err2) \<Rightarrow>
                                       (case err2 of
                                          Some e \<Rightarrow> (Inl (e, currentEpoch0), csm1)
                                        | None \<Rightarrow>
                                            (GetDataReliabilitySession_finish consumerSession2
                                               pairingEpoch2 providerAddress currentEpoch0,
                                             csm1))))
                           else
                             (case err1 of
                                Some e \<Rightarrow> (Inl (e, currentEpoch0), csm)
                              | None \<Rightarrow>
                                  (GetDataReliabilitySession_finish consumerSession pairingEpoch
                                     providerAddress currentEpoch0, csm))))))"

section \<open>Concrete states\<close>

text \<open>
  A manager in epoch 8 with the two providers A and B, the entry of provider A as it was
  installed in epoch 7 and in epoch 8, a session of provider A (lock held, three
  consecutive failures so far, a relay of 10 compute units in flight) and a plain relay
  error (no out-of-sync code, no block or report class). The closed theorems below
  evaluate the functions on them.
\<close>

definition providerA7 :: ConsumerSessionsWithProvider where
  "providerA7 = \<lparr>PublicLavaAddress = ''lava@A'', UsedComputeUnits = 10,
                  MaxComputeUnits = 1000, PairingEpoch = 7\<rparr>"

definition providerA8 :: ConsumerSessionsWithProvider where
  "providerA8 = \<lparr>PublicLavaAddress = ''lava@A'', UsedComputeUnits = 10,
                  MaxComputeUnits = 1000, PairingEpoch = 8\<rparr>"

definition providerB8 :: ConsumerSessionsWithProvider where
  "providerB8 = \<lparr>PublicLavaAddress = ''lava@B'', UsedComputeUnits = 0,
                  MaxComputeUnits = 1000, PairingEpoch = 8\<rparr>"

definition manager8 :: ConsumerSessionManager where
  "manager8 = \<lparr>pairing = [''lava@A'' \<mapsto> providerA8, ''lava@B'' \<mapsto> providerB8],
                currentEpoch = 8, numberOfResets = 0,
                pairingAddresses = [0 \<mapsto> ''lava@A'', 1 \<mapsto> ''lava@B''],
                pairingAddressesLength = 2,
                validAddresses = [''lava@A'', ''lava@B''],
                addedToPurgeAndReport = {||},
                pairingPurge = [''lava@A'' \<mapsto> providerA7]\<rparr>"

definition sessionA :: SingleConsumerSession where
  "sessionA = \<lparr>CuSum = 50, LatestRelayCu = 10, QoSInfo = \<lparr>TotalRelays = 8\<rparr>, SessionId = 4242,
                RelayNum = 6, LatestBlock = 100, BlockListed = False,
                ConsecutiveNumberOfFailures = 3, lock = True\<rparr>"

definition relayError :: errorReceived where
  "relayError = \<lparr>statusCodeIsSessionOutOfSync = False, isSessionOutOfSyncError = False,
                  isReportAndBlockProviderError = False, isBlockProviderError = False\<rparr>"

text \<open>
  Provider methods for a run in which provider B already has its data-reliability
  session (session id 0, no relay sent yet, handed out locked) and every connection
  attempt succeeds at once.
\<close>

definition auditSessionB :: SingleConsumerSession where
  "auditSessionB = \<lparr>CuSum = 0, LatestRelayCu = 0, QoSInfo = \<lparr>TotalRelays = 0\<rparr>, SessionId = 0,
                     RelayNum = 0, LatestBlock = 0, BlockListed = False,
                     ConsecutiveNumberOfFailures = 0, lock = True\<rparr>"

definition methodsB :: "nat providerMethods" where
  "methodsB = \<lparr>fetchEndpointConnection = (\<lambda>idx cswp. (True, Some 0, PublicLavaAddress cswp, None)),
                verifyDataReliabilitySessionWasNotAlreadyCreated =
                  (\<lambda>cswp. (Some auditSessionB, PairingEpoch cswp, None)),
                getDataReliabilitySingleConsumerSession =
                  (\<lambda>cswp endpoint. (Some auditSessionB, PairingEpoch cswp, None))\<rparr>"

section \<open>Theorems\<close>

subsection \<open>ReplaceRequestedBlock\<close>

text \<open>
  C8. For every latest block \<open>L\<close>: the magic request blocks LATEST, SAFE and FINALIZED are
  replaced by \<open>L\<close>, EARLIEST is replaced by NOT_APPLICABLE, and every requested block that
  is none of the four magic values is returned as it is. The only assumption is the one
  the Go compiler enforces on the \<open>switch\<close>: the four case constants are distinct.
\<close>

theorem ReplaceRequestedBlock_cases:
  assumes "distinct [LATEST_BLOCK c, SAFE_BLOCK c, FINALIZED_BLOCK c, EARLIEST_BLOCK c]"
  shows "ReplaceRequestedBlock c (LATEST_BLOCK c) L = L
       \<and> ReplaceRequestedBlock c (SAFE_BLOCK c) L = L
       \<and> ReplaceRequestedBlock c (FINALIZED_BLOCK c) L = L
       \<and> ReplaceRequestedBlock c (EARLIEST_BLOCK c) L = NOT_APPLICABLE c
       \<and> (\<forall>x. x \<notin> {LATEST_BLOCK c, SAFE_BLOCK c, FINALIZED_BLOCK c, EARLIEST_BLOCK c}
              \<longrightarrow> ReplaceRequestedBlock c x L = x)"
  using assms by (auto simp: ReplaceRequestedBlock_def)

theorem ReplaceRequestedBlock_cases_witness:
  "ReplaceRequestedBlock
      \<lparr>LATEST_BLOCK = - 2, SAFE_BLOCK = - 5, FINALIZED_BLOCK = - 6, EARLIEST_BLOCK = - 3,
       NOT_APPLICABLE = - 1\<rparr> (- 2) 100 = 100
   \<and> ReplaceRequestedBlock
      \<lparr>LATEST_BLOCK = - 2, SAFE_BLOCK = - 5, FINALIZED_BLOCK = - 6, EARLIEST_BLOCK = - 3,
       NOT_APPLICABLE = - 1\<rparr> (- 3) 100 = - 1
   \<and> ReplaceRequestedBlock
      \<lparr>LATEST_BLOCK = - 2, SAFE_BLOCK = - 5, FINALIZED_BLOCK = - 6, EARLIEST_BLOCK = - 3,
       NOT_APPLICABLE = - 1\<rparr> 7 100 = 7"
  using ReplaceRequestedBlock_cases
    [of "\<lparr>LATEST_BLOCK = - 2, SAFE_BLOCK = - 5, FINALIZED_BLOCK = - 6, EARLIEST_BLOCK = - 3,
          NOT_APPLICABLE = - 1\<rparr>" 100]
  by simp


subsection \<open>DataReliabilityThresholdToSession\<close>













subsection \<open>VerifyReliabilityResults\<close>

lemma VerifyReliabilityResults_original_length:
  "length (snd (VerifyReliabilityResults_original orig rs (c, cs))) =
     (if \<exists>r\<in>set rs. Data (Reply orig) \<noteq> Data (Reply r) then 1 else length cs)"
  by (induction rs arbitrary: c cs) (auto simp: compareRelaysFindConflict_def)

lemma VerifyReliabilityResults_original_flag:
  "fst (VerifyReliabilityResults_original orig rs (c, cs)) =
     (c \<or> (\<exists>r\<in>set rs. Data (Reply orig) \<noteq> Data (Reply r)))"
  by (induction rs arbitrary: c cs) (auto simp: compareRelaysFindConflict_def)

lemma VerifyReliabilityResults_inner_length:
  "length (VerifyReliabilityResults_inner r1 rs cs) =
     length cs + length (filter (\<lambda>r2. Data (Reply r1) \<noteq> Data (Reply r2)) rs)"
  by (induction rs arbitrary: cs) (auto simp: compareRelaysFindConflict_def)

lemma VerifyReliabilityResults_outer_length:
  "length (VerifyReliabilityResults_outer rs cs) =
     length cs + length (filter (\<lambda>(r1, r2). Data (Reply r1) \<noteq> Data (Reply r2)) (laterPairs rs))"
  by (induction rs arbitrary: cs)
    (auto simp: VerifyReliabilityResults_inner_length filter_map comp_def)

lemma set_laterPairs: "(a, b) \<in> set (laterPairs xs) \<Longrightarrow> a \<in> set xs \<and> b \<in> set xs"
  by (induction xs) auto

text \<open>
  What the code returns, for every original result and every list of audit results: the
  flag says whether some audit reply differs from the original reply, and the number of
  conflicts is one (not one per audit) when some audit reply differs from the original,
  plus one for every pair of audit results that differ from each other.
\<close>

lemma VerifyReliabilityResults_count:
  "fst (VerifyReliabilityResults orig rs n) = (\<exists>r\<in>set rs. Data (Reply orig) \<noteq> Data (Reply r))"
  "length (snd (VerifyReliabilityResults orig rs n)) =
     (if \<exists>r\<in>set rs. Data (Reply orig) \<noteq> Data (Reply r) then 1 else 0)
     + length (filter (\<lambda>(r1, r2). Data (Reply r1) \<noteq> Data (Reply r2)) (laterPairs rs))"
proof -
  obtain c cs where o: "VerifyReliabilityResults_original orig rs (False, []) = (c, cs)"
    by (cases "VerifyReliabilityResults_original orig rs (False, [])")
  from VerifyReliabilityResults_original_flag [of orig rs False "[]"] o
  have c: "c = (\<exists>r\<in>set rs. Data (Reply orig) \<noteq> Data (Reply r))"
    by simp
  from VerifyReliabilityResults_original_length [of orig rs False "[]"] o
  have len: "length cs = (if \<exists>r\<in>set rs. Data (Reply orig) \<noteq> Data (Reply r) then 1 else 0)"
    by simp
  from o c show "fst (VerifyReliabilityResults orig rs n) =
      (\<exists>r\<in>set rs. Data (Reply orig) \<noteq> Data (Reply r))"
    by (simp add: VerifyReliabilityResults_def)
  show "length (snd (VerifyReliabilityResults orig rs n)) =
     (if \<exists>r\<in>set rs. Data (Reply orig) \<noteq> Data (Reply r) then 1 else 0)
     + length (filter (\<lambda>(r1, r2). Data (Reply r1) \<noteq> Data (Reply r2)) (laterPairs rs))"
  proof (cases c)
    case True
    with o len show ?thesis
      by (simp add: VerifyReliabilityResults_def VerifyReliabilityResults_outer_length)
  next
    case False
    with c have "\<forall>r\<in>set rs. Data (Reply r) = Data (Reply orig)"
      by auto
    then have "filter (\<lambda>(r1, r2). Data (Reply r1) \<noteq> Data (Reply r2)) (laterPairs rs) = []"
      by (auto simp: filter_empty_conv dest!: set_laterPairs)
    with o len False c show ?thesis
      by (simp add: VerifyReliabilityResults_def)
  qed
qed



subsection \<open>blockProvider\<close>

lemma removeAddressFromValidAddresses_loop_None:
  "removeAddressFromValidAddresses_loop xs a k = None \<longleftrightarrow> a \<notin> set xs"
  by (induction xs arbitrary: k) auto

lemma removeAddressFromValidAddresses_loop_Some:
  "removeAddressFromValidAddresses_loop xs a k = Some i \<Longrightarrow>
     k \<le> i \<and> take (i - k) xs @ drop (Suc (i - k)) xs = remove1 a xs"
proof (induction xs arbitrary: k)
  case Nil
  then show ?case by simp
next
  case (Cons x xs)
  show ?case
  proof (cases "x = a")
    case True
    with Cons.prems show ?thesis by simp
  next
    case False
    with Cons.prems have r: "removeAddressFromValidAddresses_loop xs a (Suc k) = Some i"
      by simp
    from Cons.IH [OF r] have le: "Suc k \<le> i"
      and eq: "take (i - Suc k) xs @ drop (Suc (i - Suc k)) xs = remove1 a xs"
      by auto
    from le have "i - k = Suc (i - Suc k)" by simp
    with eq False le show ?thesis by simp
  qed
qed

text \<open>Cutting the found index out of the slice removes the first occurrence.\<close>

lemma removeAddressFromValidAddresses_eq:
  "removeAddressFromValidAddresses csm a =
     (if a \<in> set (validAddresses csm) then None else Some AddressIndexWasNotFoundError,
      csm\<lparr>validAddresses := remove1 a (validAddresses csm)\<rparr>)"
proof (cases "removeAddressFromValidAddresses_loop (validAddresses csm) a 0")
  case None
  then have "a \<notin> set (validAddresses csm)"
    by (simp add: removeAddressFromValidAddresses_loop_None)
  with None show ?thesis
    by (simp add: removeAddressFromValidAddresses_def remove1_idem)
next
  case (Some i)
  from removeAddressFromValidAddresses_loop_Some [OF Some]
  have "take i (validAddresses csm) @ drop (Suc i) (validAddresses csm)
      = remove1 a (validAddresses csm)"
    by simp
  moreover from Some have "a \<in> set (validAddresses csm)"
    using removeAddressFromValidAddresses_loop_None [of "validAddresses csm" a 0] by auto
  ultimately show ?thesis using Some
    by (simp add: removeAddressFromValidAddresses_def)
qed


text \<open>
  C6. For every address, report flag and session epoch: if the session epoch differs
  from the current epoch, \<open>blockProvider\<close> returns \<open>EpochMismatchError\<close> and the manager
  is unchanged; if it equals the current epoch, the call succeeds, the address is removed
  from \<open>validAddresses\<close> (its first occurrence; when the list has no address twice, the
  address is no longer in it) and the address is added to the reported set exactly when
  the report flag is set; no other field changes.
\<close>

theorem blockProvider_epoch:
  "(sessionEpoch \<noteq> currentEpoch csm \<longrightarrow>
      blockProvider csm address reportProvider sessionEpoch = (Some EpochMismatchError, csm))
   \<and> (sessionEpoch = currentEpoch csm \<longrightarrow>
      blockProvider csm address reportProvider sessionEpoch =
        (None, csm\<lparr>validAddresses := remove1 address (validAddresses csm),
                   addedToPurgeAndReport :=
                     (if reportProvider then finsert address (addedToPurgeAndReport csm)
                      else addedToPurgeAndReport csm)\<rparr>)
      \<and> (distinct (validAddresses csm) \<longrightarrow>
           address \<notin> set (validAddresses
             (snd (blockProvider csm address reportProvider sessionEpoch)))))"
  by (auto simp: blockProvider_def removeAddressFromValidAddresses_eq finsert_absorb)

theorem blockProvider_epoch_witness:
  "blockProvider manager8 ''lava@A'' True 7 = (Some EpochMismatchError, manager8)
   \<and> blockProvider manager8 ''lava@A'' True 8 =
       (None, manager8\<lparr>validAddresses := [''lava@B''],
                       addedToPurgeAndReport := {|''lava@A''|}\<rparr>)
   \<and> blockProvider manager8 ''lava@A'' False 8 =
       (None, manager8\<lparr>validAddresses := [''lava@B'']\<rparr>)"
  using blockProvider_epoch [of 7 manager8 "''lava@A''" True]
    blockProvider_epoch [of 8 manager8 "''lava@A''" True]
    blockProvider_epoch [of 8 manager8 "''lava@A''" False]
  by (simp add: manager8_def)

subsection \<open>UpdateAllProviders\<close>

lemma UpdateAllProviders_loop_other:
  "currentEpoch (UpdateAllProviders_loop pl csm) = currentEpoch csm"
  "numberOfResets (UpdateAllProviders_loop pl csm) = numberOfResets csm"
  "pairingAddressesLength (UpdateAllProviders_loop pl csm) = pairingAddressesLength csm"
  "validAddresses (UpdateAllProviders_loop pl csm) = validAddresses csm"
  "addedToPurgeAndReport (UpdateAllProviders_loop pl csm) = addedToPurgeAndReport csm"
  "pairingPurge (UpdateAllProviders_loop pl csm) = pairingPurge csm"
  by (induction pl csm rule: UpdateAllProviders_loop.induct) simp_all

lemma UpdateAllProviders_loop_pairingAddresses:
  "distinct (map fst pl) \<Longrightarrow>
   pairingAddresses (UpdateAllProviders_loop pl csm) i =
     (case map_of pl i of Some p \<Rightarrow> Some (PublicLavaAddress p) | None \<Rightarrow> pairingAddresses csm i)"
proof (induction pl csm rule: UpdateAllProviders_loop.induct)
  case (1 csm)
  then show ?case by simp
next
  case (2 idx provider rest csm)
  then show ?case
    by (auto split: option.splits simp: map_of_eq_None_iff image_iff)
qed

lemma UpdateAllProviders_loop_pairing_dom:
  "dom (pairing (UpdateAllProviders_loop pl csm)) =
     dom (pairing csm) \<union> (PublicLavaAddress \<circ> snd) ` set pl"
  by (induction pl csm rule: UpdateAllProviders_loop.induct) auto

lemma UpdateAllProviders_loop_pairing_val:
  "pairing (UpdateAllProviders_loop pl csm) a = Some p \<Longrightarrow>
     pairing csm a = Some p \<or> (p \<in> snd ` set pl \<and> PublicLavaAddress p = a)"
  by (induction pl csm rule: UpdateAllProviders_loop.induct) (fastforce split: if_splits)+

lemma map_filter_all_Some:
  "\<forall>i\<in>set xs. g i \<noteq> None \<Longrightarrow> List.map_filter g xs = map (\<lambda>i. the (g i)) xs"
  by (induction xs) (auto simp: map_filter_simps)

text \<open>
  Whatever order the keys of the index map are visited in, the values collected are the
  addresses of the pairing list, each as often as it occurs there.
\<close>

lemma map_filter_visit_order:
  assumes "distinct (map fst pl)" "distinct order" "set order = fst ` set pl"
  shows "mset (List.map_filter (\<lambda>i. map_option f (map_of pl i)) order) = mset (map (f \<circ> snd) pl)"
proof -
  define h where "h = (\<lambda>i. the (map_option f (map_of pl i)))"
  have "\<forall>i\<in>set order. map_option f (map_of pl i) \<noteq> None"
    using assms(3) by (auto simp: map_of_eq_None_iff)
  then have filtered: "List.map_filter (\<lambda>i. map_option f (map_of pl i)) order = map h order"
    unfolding h_def by (rule map_filter_all_Some)
  have "set order = set (map fst pl)"
    using assms(3) by simp
  with assms(1,2) have keys: "mset order = mset (map fst pl)"
    by (simp only: set_eq_iff_mset_eq_distinct)
  have vals: "map h (map fst pl) = map (f \<circ> snd) pl"
    using assms(1) by (auto simp: h_def)
  have "mset (map h order) = image_mset h (mset order)"
    by simp
  also have "\<dots> = image_mset h (mset (map fst pl))"
    by (simp only: keys)
  also have "\<dots> = mset (map h (map fst pl))"
    by (simp only: mset_map)
  also have "\<dots> = mset (map (f \<circ> snd) pl)"
    by (simp only: vals)
  finally show ?thesis
    by (simp only: filtered)
qed

text \<open>
  C4. \<open>UpdateAllProviders(epoch, list)\<close> fails exactly when \<open>epoch \<le> currentEpoch\<close>, with
  the stale-epoch error and the manager unchanged. On success it sets \<open>currentEpoch\<close> to
  \<open>epoch\<close>, moves the current pairing to \<open>pairingPurge\<close>, installs the new list (by index:
  \<open>pairingAddresses\<close> maps every index of the list to the address of its provider; by
  address: \<open>pairing\<close> has exactly the addresses of the list as keys, each mapped to a
  provider of the list with that address), empties the reported set and resets
  \<open>validAddresses\<close> to exactly the addresses of the new list. The pairing list is a Go map:
  no index occurs twice in it; \<open>visitOrder\<close> is any order in which Go may visit the keys of
  the new index map.
\<close>

theorem UpdateAllProviders_rotation:
  assumes "distinct (map fst pairingList)"
    and "distinct visitOrder" and "set visitOrder = fst ` set pairingList"
  shows "(fst (UpdateAllProviders csm epoch pairingList visitOrder) \<noteq> None
            \<longleftrightarrow> epoch \<le> currentEpoch csm)
    \<and> (epoch \<le> currentEpoch csm \<longrightarrow>
          UpdateAllProviders csm epoch pairingList visitOrder = (Some StaleEpochError, csm))
    \<and> (currentEpoch csm < epoch \<longrightarrow>
         (let csm' = snd (UpdateAllProviders csm epoch pairingList visitOrder) in
            currentEpoch csm' = epoch
          \<and> pairingPurge csm' = pairing csm
          \<and> pairingAddresses csm' = map_option PublicLavaAddress \<circ> map_of pairingList
          \<and> dom (pairing csm') = (PublicLavaAddress \<circ> snd) ` set pairingList
          \<and> (\<forall>a p. pairing csm' a = Some p \<longrightarrow>
                 p \<in> snd ` set pairingList \<and> PublicLavaAddress p = a)
          \<and> addedToPurgeAndReport csm' = {||}
          \<and> mset (validAddresses csm') = mset (map (PublicLavaAddress \<circ> snd) pairingList)
          \<and> pairingAddressesLength csm' = of_nat (length pairingList)
          \<and> numberOfResets csm' = 0))"
proof (intro conjI impI)
  show "(fst (UpdateAllProviders csm epoch pairingList visitOrder) \<noteq> None)
      = (epoch \<le> currentEpoch csm)"
    by (simp add: UpdateAllProviders_def Let_def)
  show "UpdateAllProviders csm epoch pairingList visitOrder = (Some StaleEpochError, csm)"
    if "epoch \<le> currentEpoch csm"
    using that by (simp add: UpdateAllProviders_def)
next
  assume lt: "currentEpoch csm < epoch"
  define start where "start = csm\<lparr>currentEpoch := epoch, pairingAddresses := Map.empty,
      addedToPurgeAndReport := {||}, pairingAddressesLength := of_nat (length pairingList),
      numberOfResets := 0, pairingPurge := pairing csm, pairing := Map.empty\<rparr>"
  define final where "final = UpdateAllProviders_loop pairingList start"
  from lt have res: "snd (UpdateAllProviders csm epoch pairingList visitOrder)
      = setValidAddressesToDefaultValue final visitOrder"
    by (simp add: UpdateAllProviders_def Let_def start_def final_def not_le [symmetric])
  have pa: "pairingAddresses final = map_option PublicLavaAddress \<circ> map_of pairingList"
    using UpdateAllProviders_loop_pairingAddresses [OF assms(1), of start]
    by (auto simp: final_def start_def fun_eq_iff split: option.splits)
  have va: "mset (validAddresses (setValidAddressesToDefaultValue final visitOrder))
      = mset (map (PublicLavaAddress \<circ> snd) pairingList)"
    using map_filter_visit_order [OF assms, of PublicLavaAddress]
    by (simp add: setValidAddressesToDefaultValue_def pa comp_def)
  have pv: "\<forall>a p. pairing final a = Some p
      \<longrightarrow> p \<in> snd ` set pairingList \<and> PublicLavaAddress p = a"
    using UpdateAllProviders_loop_pairing_val [of pairingList start]
    by (auto simp: final_def start_def)
  show "let csm' = snd (UpdateAllProviders csm epoch pairingList visitOrder) in
            currentEpoch csm' = epoch
          \<and> pairingPurge csm' = pairing csm
          \<and> pairingAddresses csm' = map_option PublicLavaAddress \<circ> map_of pairingList
          \<and> dom (pairing csm') = (PublicLavaAddress \<circ> snd) ` set pairingList
          \<and> (\<forall>a p. pairing csm' a = Some p \<longrightarrow>
                 p \<in> snd ` set pairingList \<and> PublicLavaAddress p = a)
          \<and> addedToPurgeAndReport csm' = {||}
          \<and> mset (validAddresses csm') = mset (map (PublicLavaAddress \<circ> snd) pairingList)
          \<and> pairingAddressesLength csm' = of_nat (length pairingList)
          \<and> numberOfResets csm' = 0"
    unfolding res Let_def
    using va pv pa
    by (simp add: setValidAddressesToDefaultValue_def final_def UpdateAllProviders_loop_other
        UpdateAllProviders_loop_pairing_dom start_def)
qed

theorem UpdateAllProviders_rotation_witness:
  "UpdateAllProviders manager8 8 [(0, providerB8), (1, providerA8)] [1, 0]
     = (Some StaleEpochError, manager8)
   \<and> fst (UpdateAllProviders manager8 9 [(0, providerB8), (1, providerA8)] [1, 0]) = None
   \<and> currentEpoch (snd (UpdateAllProviders manager8 9 [(0, providerB8), (1, providerA8)] [1, 0]))
       = 9
   \<and> pairingPurge (snd (UpdateAllProviders manager8 9 [(0, providerB8), (1, providerA8)] [1, 0]))
       = pairing manager8
   \<and> validAddresses (snd (UpdateAllProviders manager8 9 [(0, providerB8), (1, providerA8)] [1, 0]))
       = [''lava@A'', ''lava@B'']"
proof -
  have d: "distinct (map fst [(0 :: uint64, providerB8), (1, providerA8)])"
    and v: "distinct [1 :: uint64, 0]"
    and s: "set [1 :: uint64, 0] = fst ` set [(0, providerB8), (1, providerA8)]"
    by auto
  show ?thesis
    using UpdateAllProviders_rotation [OF d v s, of manager8 8]
      UpdateAllProviders_rotation [OF d v s, of manager8 9]
    by (simp add: manager8_def UpdateAllProviders_def setValidAddressesToDefaultValue_def
        map_filter_simps providerA8_def providerB8_def)
qed


subsection \<open>getValidProviderAddress\<close>

text \<open>
  The loop returns the address number \<open>validAddressIndex - validAddressesCounter\<close> among
  the addresses of the list that are not ignored, and the unreachable-code error when
  there are not that many.
\<close>

lemma getValidProviderAddress_loop_nth:
  "c \<le> idx \<Longrightarrow>
   getValidProviderAddress_loop xs ign idx c =
     (if nat (idx - c) < length (filter (\<lambda>a. a |\<notin>| ign) xs)
      then Inr (filter (\<lambda>a. a |\<notin>| ign) xs ! nat (idx - c))
      else Inl UnreachableCodeError)"
proof (induction xs arbitrary: c)
  case Nil
  then show ?case by simp
next
  case (Cons x xs)
  show ?case
  proof (cases "x |\<notin>| ign")
    case False
    with Cons show ?thesis by simp
  next
    case True
    show ?thesis
    proof (cases "c = idx")
      case True
      with \<open>x |\<notin>| ign\<close> show ?thesis by simp
    next
      case False
      with Cons.prems have lt: "c + 1 \<le> idx" by simp
      then have n: "nat (idx - c) = Suc (nat (idx - (c + 1)))" by simp
      from Cons.IH [OF lt] True False show ?thesis
        by (simp add: n)
    qed
  qed
qed

lemma length_filter_not_ignored:
  assumes "distinct xs" "fset ign \<subseteq> set xs"
  shows "int (length (filter (\<lambda>a. a |\<notin>| ign) xs)) = int (length xs) - int (fcard ign)"
proof -
  have "distinct (filter (\<lambda>a. a |\<in>| ign) xs)"
    using assms(1) by simp
  then have "length (filter (\<lambda>a. a |\<in>| ign) xs) = card (set (filter (\<lambda>a. a |\<in>| ign) xs))"
    by (rule distinct_card [symmetric])
  also have "set (filter (\<lambda>a. a |\<in>| ign) xs) = fset ign"
    using assms(2) by auto
  finally have "length (filter (\<lambda>a. a |\<in>| ign) xs) = fcard ign"
    by (simp add: fcard.rep_eq)
  moreover have "length (filter (\<lambda>a. a |\<in>| ign) xs) + length (filter (\<lambda>a. a |\<notin>| ign) xs)
      = length xs"
    by (rule sum_length_filter_compl)
  ultimately show ?thesis by linarith
qed

text \<open>
  Where the selection is right: when no address occurs twice in \<open>validAddresses\<close> and every
  ignored address is one of the valid addresses, the subtraction of the two lengths counts
  the difference. The call then fails with \<open>PairingListEmptyError\<close> exactly when the
  difference is empty, and otherwise returns the address at position \<open>rand.Intn(n)\<close> of
  the \<open>n\<close> addresses of the difference: each of them for exactly one value of the random
  number, hence each with the same probability.
\<close>

lemma getValidProviderAddress_ignored_inside:
  assumes "distinct (validAddresses csm)" and "fset ign \<subseteq> set (validAddresses csm)"
    and "\<forall>n>0. 0 \<le> rand_Intn n \<and> rand_Intn n < n"
  shows "getValidProviderAddress rand_Intn csm ign =
     (if set (validAddresses csm) - fset ign = {} then Inl PairingListEmptyError
      else Inr (filter (\<lambda>a. a |\<notin>| ign) (validAddresses csm)
                 ! nat (rand_Intn (int (length (filter (\<lambda>a. a |\<notin>| ign)
                                                     (validAddresses csm)))))))"
proof -
  let ?ys = "filter (\<lambda>a. a |\<notin>| ign) (validAddresses csm)"
  have len: "int (length ?ys) = int (length (validAddresses csm)) - int (fcard ign)"
    using assms(1,2) by (rule length_filter_not_ignored)
  have empty: "set (validAddresses csm) - fset ign = {} \<longleftrightarrow> length ?ys = 0"
    by (auto simp: filter_empty_conv)
  show ?thesis
  proof (cases "length ?ys = 0")
    case True
    with len empty show ?thesis
      by (simp add: getValidProviderAddress_def)
  next
    case False
    then have pos: "0 < int (length ?ys)" by simp
    with assms(3) have r: "0 \<le> rand_Intn (int (length ?ys))"
      "rand_Intn (int (length ?ys)) < int (length ?ys)"
      by auto
    then have "nat (rand_Intn (int (length ?ys))) < length ?ys" by linarith
    with False empty len pos r show ?thesis
      by (simp add: getValidProviderAddress_def Let_def getValidProviderAddress_loop_nth)
  qed
qed

text \<open>
  C3, at an input where an ignored address is not a valid address. The pairing is
  \<open>{A, B}\<close>; provider A failed a relay, so the caller ignores it, and it was blocked, so
  it has left \<open>validAddresses\<close>. The difference \<open>validAddresses \ exclude\<close> is \<open>{B}\<close>, not
  empty, and the claim expects B to be chosen. The code subtracts the number of ignored
  addresses from the number of valid ones, \<open>1 - 1 = 0\<close>, and fails with
  \<open>PairingListEmptyError\<close>, whatever the random number.
\<close>

theorem getValidProviderAddress_ignored_outside:
  "getValidProviderAddress rand_Intn (csm\<lparr>validAddresses := [''lava@B'']\<rparr>) {|''lava@A''|}
     = Inl PairingListEmptyError
   \<and> set (validAddresses (csm\<lparr>validAddresses := [''lava@B'']\<rparr>)) - fset {|''lava@A''|}
     = {''lava@B''}"
  by (simp add: getValidProviderAddress_def fcard_finsert_if)

subsection \<open>OnSessionFailure\<close>

text \<open>
  C10, as the claim states it, fails for a block-listed session whose lock is not held:
  \<open>verifyLock\<close> comes first, and the call returns \<open>LockMisUseDetectedError\<close>, not
  \<open>SessionIsAlreadyBlockListedError\<close> (it changes nothing there either).
\<close>

theorem OnSessionFailure_lock_not_held_counterexample:
  "BlockListed (sessionA\<lparr>BlockListed := True, lock := False\<rparr>)
   \<and> OnSessionFailure manager8 providerA8 (sessionA\<lparr>BlockListed := True, lock := False\<rparr>)
        relayError
       = (Some LockMisUseDetectedError, manager8, providerA8,
          sessionA\<lparr>BlockListed := True, lock := False\<rparr>)
   \<and> fst (OnSessionFailure manager8 providerA8 (sessionA\<lparr>BlockListed := True, lock := False\<rparr>)
        relayError)
       \<noteq> Some SessionIsAlreadyBlockListedError"
  by (simp add: OnSessionFailure_def verifyLock_def sessionA_def)

text \<open>
  C10, amended. For every session whose lock is held and whose \<open>BlockListed\<close> flag is
  already true, \<open>OnSessionFailure\<close> returns \<open>SessionIsAlreadyBlockListedError\<close> and changes
  nothing: the session (its failure counter, \<open>TotalRelays\<close>, \<open>LatestRelayCu\<close>, and its
  lock, which stays held), the provider entry (its used compute units) and the manager
  (\<open>validAddresses\<close>, the reported set) are returned as they were.
\<close>

theorem OnSessionFailure_blocklisted:
  "lock consumerSession \<and> BlockListed consumerSession \<longrightarrow>
     OnSessionFailure csm client consumerSession errorReceived =
       (Some SessionIsAlreadyBlockListedError, csm, client, consumerSession)"
  by (simp add: OnSessionFailure_def verifyLock_def)

theorem OnSessionFailure_blocklisted_witness:
  "lock (sessionA\<lparr>BlockListed := True\<rparr>) \<and> BlockListed (sessionA\<lparr>BlockListed := True\<rparr>)
   \<and> OnSessionFailure manager8 providerA8 (sessionA\<lparr>BlockListed := True\<rparr>) relayError =
       (Some SessionIsAlreadyBlockListedError, manager8, providerA8,
        sessionA\<lparr>BlockListed := True\<rparr>)"
  using OnSessionFailure_blocklisted
    [of "sessionA\<lparr>BlockListed := True\<rparr>" manager8 providerA8 relayError]
  by (simp add: sessionA_def)





subsection \<open>Data-reliability sessions\<close>

lemma GetDataReliabilitySession_finish_Inr:
  "GetDataReliabilitySession_finish consumerSession pairingEpoch providerAddress currentEpoch0
     = Inr (cs', addr, ep) \<Longrightarrow>
   \<exists>cs. consumerSession = Some cs \<and> cs' = cs\<lparr>RelayNum := RelayNum cs + 1\<rparr>"
  by (auto simp: GetDataReliabilitySession_finish_def Let_def split: option.splits)

text \<open>
  A session that \<open>GetDataReliabilitySession\<close> returns is the session one of the two
  provider methods handed out without error, with the relay number incremented.
\<close>

lemma GetDataReliabilitySession_increments:
  assumes "GetDataReliabilitySession methods csm orig index ep = (Inr (cs', addr, ep'), csm')"
  shows "\<exists>cswp cs pe.
           (verifyDataReliabilitySessionWasNotAlreadyCreated methods cswp = (Some cs, pe, None)
            \<or> (\<exists>endpoint. getDataReliabilitySingleConsumerSession methods cswp endpoint
                  = (Some cs, pe, None)))
         \<and> cs' = cs\<lparr>RelayNum := RelayNum cs + 1\<rparr>"
  using assms
  unfolding GetDataReliabilitySession_def
  by (auto split: prod.splits option.splits if_splits sum.splits
      dest!: GetDataReliabilitySession_finish_Inr)

lemma OnDataReliabilitySessionFailure_RelayNum:
  "lock cs \<Longrightarrow> \<not> BlockListed cs \<Longrightarrow>
    RelayNum (snd (snd (OnDataReliabilitySessionFailure csm client cs e))) = RelayNum cs - 1"
  by (auto simp: OnDataReliabilitySessionFailure_def verifyLock_def Let_def
      split: prod.splits option.splits)

lemma OnDataReliabilitySessionFailure_CuSum:
  "CuSum (snd (snd (OnDataReliabilitySessionFailure csm client cs e))) = CuSum cs"
  by (auto simp: OnDataReliabilitySessionFailure_def verifyLock_def Let_def
      split: prod.splits option.splits)

lemma OnDataReliabilitySessionDone_CuSum:
  "CuSum (snd (OnDataReliabilitySessionDone q cs lb cu cl el bh np pc)) = CuSum cs"
  by (auto simp: OnDataReliabilitySessionDone_def verifyLock_def Let_def
      split: prod.splits option.splits)

lemma GetDataReliabilitySession_methodsB:
  "GetDataReliabilitySession methodsB manager8 ''lava@A'' 1 8
     = (Inr (auditSessionB\<lparr>RelayNum := 1\<rparr>, ''lava@B'', 8), manager8)"
  by (simp add: GetDataReliabilitySession_def getDataReliabilityProviderIndex_def manager8_def
      methodsB_def GetDataReliabilitySession_finish_def providerB8_def auditSessionB_def
      Let_def not_le)

text \<open>
  C7, as the claim states it, fails for an audit session that is already block-listed:
  \<open>OnDataReliabilitySessionFailure\<close> returns \<open>SessionIsAlreadyBlockListedError\<close> before it
  touches the session, so \<open>RelayNum\<close> is not decremented (here it stays 1).
\<close>

theorem OnDataReliabilitySessionFailure_blocklisted_counterexample:
  "lock (auditSessionB\<lparr>RelayNum := 1, BlockListed := True\<rparr>)
   \<and> OnDataReliabilitySessionFailure manager8 providerB8
        (auditSessionB\<lparr>RelayNum := 1, BlockListed := True\<rparr>) relayError
      = (Some SessionIsAlreadyBlockListedError, manager8,
         auditSessionB\<lparr>RelayNum := 1, BlockListed := True\<rparr>)
   \<and> RelayNum (snd (snd (OnDataReliabilitySessionFailure manager8 providerB8
        (auditSessionB\<lparr>RelayNum := 1, BlockListed := True\<rparr>) relayError)))
      \<noteq> RelayNum (auditSessionB\<lparr>RelayNum := 1, BlockListed := True\<rparr>) - 1"
  by (simp add: OnDataReliabilitySessionFailure_def verifyLock_def auditSessionB_def)

text \<open>
  C7, amended. For every data-reliability session: a session that
  \<open>GetDataReliabilitySession\<close> returns is the session handed out by the provider entry
  with \<open>RelayNum\<close> incremented by 1; \<open>OnDataReliabilitySessionFailure\<close> decrements \<open>RelayNum\<close>
  by 1 when the session's lock is held and the session is not block-listed, and otherwise
  returns an error and leaves the manager and the session as they were; neither
  \<open>OnDataReliabilitySessionDone\<close> nor \<open>OnDataReliabilitySessionFailure\<close> modifies \<open>CuSum\<close>.
  Hence acquiring an audit session that is locked and not block-listed and then releasing
  it with failure leaves \<open>RelayNum\<close> equal to its value before the acquisition.
\<close>

theorem DataReliabilitySession_RelayNum:
  "(GetDataReliabilitySession methods csm orig index ep = (Inr (cs', addr, ep'), csm') \<longrightarrow>
      (\<exists>cswp cs pe.
           (verifyDataReliabilitySessionWasNotAlreadyCreated methods cswp = (Some cs, pe, None)
            \<or> (\<exists>endpoint. getDataReliabilitySingleConsumerSession methods cswp endpoint
                  = (Some cs, pe, None)))
         \<and> cs' = cs\<lparr>RelayNum := RelayNum cs + 1\<rparr>
         \<and> (lock cs' \<and> \<not> BlockListed cs' \<longrightarrow>
              RelayNum (snd (snd (OnDataReliabilitySessionFailure csmR client cs' e)))
                = RelayNum cs)))
   \<and> (lock s \<and> \<not> BlockListed s \<longrightarrow>
        RelayNum (snd (snd (OnDataReliabilitySessionFailure csmR client s e))) = RelayNum s - 1)
   \<and> (\<not> lock s \<or> BlockListed s \<longrightarrow>
        fst (OnDataReliabilitySessionFailure csmR client s e) \<noteq> None
        \<and> snd (OnDataReliabilitySessionFailure csmR client s e) = (csmR, s))
   \<and> CuSum (snd (snd (OnDataReliabilitySessionFailure csmR client s e))) = CuSum s
   \<and> CuSum (snd (OnDataReliabilitySessionDone q s lb cu cl el bh np pc)) = CuSum s"
proof (intro conjI impI)
  assume a: "GetDataReliabilitySession methods csm orig index ep = (Inr (cs', addr, ep'), csm')"
  from GetDataReliabilitySession_increments [OF a] obtain cswp cs pe where
    h: "verifyDataReliabilitySessionWasNotAlreadyCreated methods cswp = (Some cs, pe, None)
            \<or> (\<exists>endpoint. getDataReliabilitySingleConsumerSession methods cswp endpoint
                  = (Some cs, pe, None))"
    and c: "cs' = cs\<lparr>RelayNum := RelayNum cs + 1\<rparr>"
    by blast
  have "lock cs' \<and> \<not> BlockListed cs' \<longrightarrow>
      RelayNum (snd (snd (OnDataReliabilitySessionFailure csmR client cs' e))) = RelayNum cs"
    using c by (auto simp: OnDataReliabilitySessionFailure_RelayNum)
  with h c show "\<exists>cswp cs pe.
           (verifyDataReliabilitySessionWasNotAlreadyCreated methods cswp = (Some cs, pe, None)
            \<or> (\<exists>endpoint. getDataReliabilitySingleConsumerSession methods cswp endpoint
                  = (Some cs, pe, None)))
         \<and> cs' = cs\<lparr>RelayNum := RelayNum cs + 1\<rparr>
         \<and> (lock cs' \<and> \<not> BlockListed cs' \<longrightarrow>
              RelayNum (snd (snd (OnDataReliabilitySessionFailure csmR client cs' e)))
                = RelayNum cs)"
    by blast
next
  assume "lock s \<and> \<not> BlockListed s"
  then show "RelayNum (snd (snd (OnDataReliabilitySessionFailure csmR client s e)))
      = RelayNum s - 1"
    by (simp add: OnDataReliabilitySessionFailure_RelayNum)
next
  assume "\<not> lock s \<or> BlockListed s"
  then show "fst (OnDataReliabilitySessionFailure csmR client s e) \<noteq> None"
    and "snd (OnDataReliabilitySessionFailure csmR client s e) = (csmR, s)"
    by (auto simp: OnDataReliabilitySessionFailure_def verifyLock_def)
next
  show "CuSum (snd (snd (OnDataReliabilitySessionFailure csmR client s e))) = CuSum s"
    by (rule OnDataReliabilitySessionFailure_CuSum)
  show "CuSum (snd (OnDataReliabilitySessionDone q s lb cu cl el bh np pc)) = CuSum s"
    by (rule OnDataReliabilitySessionDone_CuSum)
qed

theorem DataReliabilitySession_RelayNum_witness:
  "GetDataReliabilitySession methodsB manager8 ''lava@A'' 1 8
     = (Inr (auditSessionB\<lparr>RelayNum := 1\<rparr>, ''lava@B'', 8), manager8)
   \<and> lock (auditSessionB\<lparr>RelayNum := 1\<rparr>) \<and> \<not> BlockListed (auditSessionB\<lparr>RelayNum := 1\<rparr>)
   \<and> RelayNum auditSessionB = 0
   \<and> RelayNum (snd (snd (OnDataReliabilitySessionFailure manager8 providerB8
         (auditSessionB\<lparr>RelayNum := 1\<rparr>) relayError))) = 0"
  using DataReliabilitySession_RelayNum
    [where methods = methodsB and csm = manager8 and orig = "''lava@A''" and index = 1
       and ep = 8 and cs' = "auditSessionB\<lparr>RelayNum := 1\<rparr>" and addr = "''lava@B''"
       and ep' = 8 and csm' = manager8 and csmR = manager8 and client = providerB8
       and e = relayError and s = "auditSessionB\<lparr>RelayNum := 1\<rparr>"]
    GetDataReliabilitySession_methodsB
  by (simp add: auditSessionB_def)

end
